theory Spec2Isabelle
  imports Main
begin

section \<open>Data model (models/models.py)\<close>

text \<open>
  Every SQLAlchemy model class is a record, one field per column; a nullable column is an
  \<open>option\<close>. The source's accented column names are written without the accent
  (\<open>Titulo\<close> is the column the source spells with an acute i), except where the spelling
  itself matters, in \<open>Libro_atributos\<close> below. A \<open>DateTime\<close> is a count of
  microseconds, a \<open>Numeric(10, 2)\<close> a count of hundredths.
\<close>

type_synonym datetime = int

definition timedelta_days :: "int \<Rightarrow> int" where
  "timedelta_days d = d * 86400000000"

record Autor =
  IdAutor :: int
  Nombres :: string
  Apellidos :: string
  Nacionalidad :: string
  OtrosDetalles :: "string option"

record Categoria =
  IdCategoria :: int
  Descripcion :: string
  OtrosDetalles :: "string option"

record Libro =
  ISBN :: string
  Titulo :: string
  Publicacion :: string
  FechaPublicacion :: int
  IdCategoria :: int
  IdAutor :: int
  OtrosDetalles :: "string option"
  Disponible :: "bool option"

record Usuario =
  IdUsuario :: int
  Nombres :: string
  Apellidos :: string
  Direccion :: "string option"
  CorreoElectronico :: "string option"
  UsuarioActivo :: "bool option"

record Prestamo =
  IdPrestamo :: int
  IdUsuario :: int
  ISBN :: string
  FechaPrestamo :: "datetime option"
  FechaVencimiento :: datetime
  FechaDevolucion :: "datetime option"
  MultaPagar :: "int option"
  OtrosDetalles :: "string option"

text \<open>The committed content of the database: one list of rows per table.\<close>

record bd =
  autores :: "Autor list"
  categorias :: "Categoria list"
  libros :: "Libro list"
  usuarios :: "Usuario list"
  prestamos :: "Prestamo list"

text \<open>Python truthiness of a nullable Boolean column: \<open>None\<close> and \<open>False\<close> are falsy.\<close>

fun truthy :: "bool option \<Rightarrow> bool" where
  "truthy None = False"
| "truthy (Some v) = v"

text \<open>
  A loan is open while \<open>FechaDevolucion\<close> is NULL. A \<open>datetime\<close> object is always
  truthy, so \<open>if prestamo.FechaDevolucion:\<close> tests exactly for a value being there.
\<close>

definition abierto :: "Prestamo \<Rightarrow> bool" where
  "abierto p = (FechaDevolucion p = None)"

section \<open>The session (database.py, SQLAlchemy)\<close>

text \<open>
  Exceptions are values. A call into the session may raise, and so may \<open>print\<close> (the
  standard output may be closed, or unable to encode the accented message); which calls
  do is given by a record of faults, one field per kind of call, \<open>Some e\<close> meaning that
  the call raises \<open>e\<close>. The session is created with \<open>autoflush=False\<close>, so nothing reaches
  the database before \<open>commit\<close>, and \<open>commit\<close> is taken to be atomic: it either publishes
  every pending change or raises and publishes none.
\<close>

datatype excepcion =
    DBAPIError string
  | AttributeError string string
  | UnicodeEncodeError
  | OSError

record fallos =
  get_session_raises :: "excepcion option"
  query_libro_raises :: "excepcion option"
  query_usuario_raises :: "excepcion option"
  query_prestamo_raises :: "excepcion option"
  commit_raises :: "excepcion option"
  rollback_raises :: "excepcion option"
  close_raises :: "excepcion option"
  print_raises :: "excepcion option"

definition sin_fallos :: fallos where
  "sin_fallos = \<lparr>get_session_raises = None, query_libro_raises = None,
     query_usuario_raises = None, query_prestamo_raises = None, commit_raises = None,
     rollback_raises = None, close_raises = None, print_raises = None\<rparr>"

text \<open>\<open>session.query(Libro).filter(Libro.ISBN == isbn).first()\<close> and its siblings.\<close>

definition libro_first :: "bd \<Rightarrow> string \<Rightarrow> Libro option" where
  "libro_first db isbn = find (\<lambda>b. Libro.ISBN b = isbn) (libros db)"

definition usuario_first :: "bd \<Rightarrow> int \<Rightarrow> Usuario option" where
  "usuario_first db usuario_id = find (\<lambda>u. Usuario.IdUsuario u = usuario_id) (usuarios db)"

definition prestamo_first :: "bd \<Rightarrow> int \<Rightarrow> Prestamo option" where
  "prestamo_first db id_prestamo = find (\<lambda>p. IdPrestamo p = id_prestamo) (prestamos db)"

text \<open>
  The UPDATE statements the unit of work emits at commit: they address the row by its
  primary key.
\<close>

definition set_Disponible :: "string \<Rightarrow> bool option \<Rightarrow> Libro list \<Rightarrow> Libro list" where
  "set_Disponible isbn v bs =
     map (\<lambda>b. if Libro.ISBN b = isbn then b\<lparr>Disponible := v\<rparr> else b) bs"

definition set_FechaDevolucion :: "int \<Rightarrow> datetime option \<Rightarrow> Prestamo list \<Rightarrow> Prestamo list" where
  "set_FechaDevolucion id_prestamo v ps =
     map (\<lambda>p. if IdPrestamo p = id_prestamo then p\<lparr>FechaDevolucion := v\<rparr> else p) ps"

text \<open>
  \<open>autoincrement=True\<close> on \<open>IdPrestamo\<close>: the database gives an inserted row a key above
  every key in the table.
\<close>

definition autoincrement :: "Prestamo list \<Rightarrow> int" where
  "autoincrement ps = Max (insert 0 (set (map IdPrestamo ps))) + 1"

section \<open>PrestamoController (controllers/prestamo_controller.py)\<close>

text \<open>The messages of the (success, message) pairs, one constructor per message.\<close>

datatype mensaje =
    LibroNoEncontrado
  | LibroYaPrestado string
  | UsuarioNoEncontrado
  | PrestamoRealizado
  | ErrorAlProcesarPrestamo excepcion
  | PrestamoNoEncontrado
  | PrestamoYaDevuelto
  | LibroDevuelto
  | ErrorEnDevolucion excepcion

type_synonym resultado = "excepcion + bool \<times> mensaje"

text \<open>What the caller got is a pair whose first component is \<open>True\<close>.\<close>

fun exito :: "resultado \<Rightarrow> bool" where
  "exito (Inr (ok, m)) = ok"
| "exito (Inl e) = False"

text \<open>
  The \<open>except Exception as e\<close> clause of both operations: roll back, print the error
  (\<open>crear_prestamo\<close> does, \<open>devolver_libro\<close> does not: \<open>imprime\<close> tells which), then
  return the failure pair built from \<open>e\<close>. The committed database is the one from before
  the call. If \<open>session.rollback()\<close> or \<open>print\<close> raises, that exception leaves the
  clause. Formatting \<open>e\<close> into the message is taken not to raise.
\<close>

definition except_rollback ::
  "fallos \<Rightarrow> bool \<Rightarrow> (excepcion \<Rightarrow> mensaje) \<Rightarrow> bd \<Rightarrow>
   excepcion + (bool \<times> mensaje) \<times> bd \<Rightarrow> resultado \<times> bd" where
  "except_rollback f imprime msg db r =
     (case r of
        Inr (res, db') \<Rightarrow> (Inr res, db')
      | Inl e \<Rightarrow>
          (case rollback_raises f of
             Some e' \<Rightarrow> (Inl e', db)
           | None \<Rightarrow>
               (case (if imprime then print_raises f else None) of
                  Some e' \<Rightarrow> (Inl e', db)
                | None \<Rightarrow> (Inr (False, msg e), db))))"

text \<open>
  The \<open>finally: self.close_session()\<close> clause, once a session is open: an exception
  raised by \<open>session.close()\<close> replaces whatever the \<open>try\<close> statement was about to
  return or raise.
\<close>

definition finally_close :: "fallos \<Rightarrow> excepcion + 'a \<Rightarrow> excepcion + 'a" where
  "finally_close f r =
     (case close_raises f of
        Some e \<Rightarrow> Inl e
      | None \<Rightarrow> r)"

text \<open>
  The body of the \<open>try\<close> of \<open>crear_prestamo\<close>. \<open>t1\<close> and \<open>t2\<close> are the readings of the two
  calls of \<open>datetime.now()\<close>, in the order the keyword arguments are evaluated.
  \<open>MultaPagar\<close> is not given by the code and takes the column default 0.
\<close>

definition crear_prestamo_try ::
  "fallos \<Rightarrow> datetime \<Rightarrow> datetime \<Rightarrow> bd \<Rightarrow> string \<Rightarrow> int \<Rightarrow> excepcion + (bool \<times> mensaje) \<times> bd" where
  "crear_prestamo_try f t1 t2 db isbn usuario_id =
     (case query_libro_raises f of
        Some e \<Rightarrow> Inl e
      | None \<Rightarrow>
     (case libro_first db isbn of
        None \<Rightarrow> Inr ((False, LibroNoEncontrado), db)
      | Some libro \<Rightarrow>
          if \<not> truthy (Disponible libro) then Inr ((False, LibroYaPrestado (Titulo libro)), db)
          else
     (case query_usuario_raises f of
        Some e \<Rightarrow> Inl e
      | None \<Rightarrow>
     (case usuario_first db usuario_id of
        None \<Rightarrow> Inr ((False, UsuarioNoEncontrado), db)
      | Some usuario \<Rightarrow>
          let nuevo_prestamo =
                \<lparr>Prestamo.IdPrestamo = autoincrement (prestamos db),
                 Prestamo.IdUsuario = usuario_id,
                 Prestamo.ISBN = isbn,
                 Prestamo.FechaPrestamo = Some t1,
                 Prestamo.FechaVencimiento = t2 + timedelta_days 14,
                 Prestamo.FechaDevolucion = None,
                 Prestamo.MultaPagar = Some 0,
                 Prestamo.OtrosDetalles = None\<rparr>;
              pendiente =
                db\<lparr>libros := set_Disponible (Libro.ISBN libro) (Some False) (libros db),
                    prestamos := prestamos db @ [nuevo_prestamo]\<rparr>
          in (case commit_raises f of
                Some e \<Rightarrow> Inl e
              | None \<Rightarrow> Inr ((True, PrestamoRealizado), pendiente))))))"

text \<open>
  \<open>crear_prestamo\<close>: \<open>self.get_session()\<close> is called before the \<open>try\<close>, so an exception
  of it reaches the caller directly. The result is what the caller gets (\<open>Inl\<close>: an
  exception) and the committed database afterwards.
\<close>

definition crear_prestamo ::
  "fallos \<Rightarrow> datetime \<Rightarrow> datetime \<Rightarrow> bd \<Rightarrow> string \<Rightarrow> int \<Rightarrow> resultado \<times> bd" where
  "crear_prestamo f t1 t2 db isbn usuario_id =
     (case get_session_raises f of
        Some e \<Rightarrow> (Inl e, db)
      | None \<Rightarrow>
          (let (r, db') = except_rollback f True ErrorAlProcesarPrestamo db
                            (crear_prestamo_try f t1 t2 db isbn usuario_id)
           in (finally_close f r, db')))"

text \<open>The body of the \<open>try\<close> of \<open>devolver_libro\<close>; \<open>t\<close> is the reading of \<open>datetime.now()\<close>.\<close>

definition devolver_libro_try ::
  "fallos \<Rightarrow> datetime \<Rightarrow> bd \<Rightarrow> int \<Rightarrow> excepcion + (bool \<times> mensaje) \<times> bd" where
  "devolver_libro_try f t db id_prestamo =
     (case query_prestamo_raises f of
        Some e \<Rightarrow> Inl e
      | None \<Rightarrow>
     (case prestamo_first db id_prestamo of
        None \<Rightarrow> Inr ((False, PrestamoNoEncontrado), db)
      | Some prestamo \<Rightarrow>
          if FechaDevolucion prestamo \<noteq> None then Inr ((False, PrestamoYaDevuelto), db)
          else
     (case query_libro_raises f of
        Some e \<Rightarrow> Inl e
      | None \<Rightarrow>
          let ps = set_FechaDevolucion (IdPrestamo prestamo) (Some t) (prestamos db);
              bs = (case libro_first db (Prestamo.ISBN prestamo) of
                      None \<Rightarrow> libros db
                    | Some libro \<Rightarrow> set_Disponible (Libro.ISBN libro) (Some True) (libros db));
              pendiente = db\<lparr>libros := bs, prestamos := ps\<rparr>
          in (case commit_raises f of
                Some e \<Rightarrow> Inl e
              | None \<Rightarrow> Inr ((True, LibroDevuelto), pendiente)))))"

definition devolver_libro :: "fallos \<Rightarrow> datetime \<Rightarrow> bd \<Rightarrow> int \<Rightarrow> resultado \<times> bd" where
  "devolver_libro f t db id_prestamo =
     (case get_session_raises f of
        Some e \<Rightarrow> (Inl e, db)
      | None \<Rightarrow>
          (let (r, db') = except_rollback f False ErrorEnDevolucion db
                            (devolver_libro_try f t db id_prestamo)
           in (finally_close f r, db')))"

text \<open>
  The read operations share one shape: \<open>get_session()\<close> is inside the \<open>try\<close>, the
  \<open>except\<close> clause prints the error and returns the empty list, and \<open>close_session()\<close>
  in the \<open>finally\<close> clause closes the session only if one was opened. If \<open>print\<close>
  raises, that exception leaves the \<open>except\<close> clause in place of the empty list.
\<close>

definition except_vacio :: "fallos \<Rightarrow> excepcion + 'a list \<Rightarrow> excepcion + 'a list" where
  "except_vacio f r =
     (case r of
        Inl e \<Rightarrow>
          (case print_raises f of
             Some e' \<Rightarrow> Inl e'
           | None \<Rightarrow> Inr [])
      | Inr xs \<Rightarrow> Inr xs)"

text \<open>\<open>joinedload(Prestamo.libro)\<close>, \<open>joinedload(Prestamo.usuario)\<close>.\<close>

type_synonym prestamo_cargado = "Prestamo \<times> Libro option \<times> Usuario option"

definition joinedload_prestamo :: "bd \<Rightarrow> Prestamo \<Rightarrow> prestamo_cargado" where
  "joinedload_prestamo db p =
     (p, libro_first db (Prestamo.ISBN p), usuario_first db (Prestamo.IdUsuario p))"

definition obtener_prestamos_activos :: "fallos \<Rightarrow> bd \<Rightarrow> excepcion + prestamo_cargado list" where
  "obtener_prestamos_activos f db =
     (case get_session_raises f of
        Some e \<Rightarrow> except_vacio f (Inl e)
      | None \<Rightarrow>
          finally_close f (except_vacio f
            (case query_prestamo_raises f of
               Some e \<Rightarrow> Inl e
             | None \<Rightarrow>
                 Inr (map (joinedload_prestamo db)
                        (filter (\<lambda>p. FechaDevolucion p = None) (prestamos db))))))"

section \<open>LibroController (controllers/libro_controller.py)\<close>

text \<open>\<open>joinedload(Libro.autor)\<close>, \<open>joinedload(Libro.categoria)\<close>.\<close>

type_synonym libro_cargado = "Libro \<times> Autor option \<times> Categoria option"

definition joinedload_libro :: "bd \<Rightarrow> Libro \<Rightarrow> libro_cargado" where
  "joinedload_libro db b =
     (b, find (\<lambda>a. Autor.IdAutor a = Libro.IdAutor b) (autores db),
         find (\<lambda>c. Categoria.IdCategoria c = Libro.IdCategoria b) (categorias db))"

definition obtener_todos :: "fallos \<Rightarrow> bd \<Rightarrow> excepcion + libro_cargado list" where
  "obtener_todos f db =
     (case get_session_raises f of
        Some e \<Rightarrow> except_vacio f (Inl e)
      | None \<Rightarrow>
          finally_close f (except_vacio f
            (case query_libro_raises f of
               Some e \<Rightarrow> Inl e
             | None \<Rightarrow> Inr (map (joinedload_libro db) (libros db)))))"

definition obtener_disponibles :: "fallos \<Rightarrow> bd \<Rightarrow> excepcion + libro_cargado list" where
  "obtener_disponibles f db =
     (case get_session_raises f of
        Some e \<Rightarrow> except_vacio f (Inl e)
      | None \<Rightarrow>
          finally_close f (except_vacio f
            (case query_libro_raises f of
               Some e \<Rightarrow> Inl e
             | None \<Rightarrow>
                 Inr (map (joinedload_libro db)
                        (filter (\<lambda>b. Disponible b = Some True) (libros db))))))"

text \<open>
  Attribute access on a model class, as in \<open>Libro.ISBN\<close>: the name is looked up among the
  names the class body binds, and a name that is not there raises \<open>AttributeError\<close>.
  Python compares identifiers by their code points, so the names are spelled here as the
  source spells them: \<open>CHR 0xED\<close> is the acute i, \<open>CHR 0xF3\<close> the acute o.
  A column of strings carries its reader; the other attributes need none here.
\<close>

datatype 'r atributo = ColStr "'r \<Rightarrow> string" | Otro

definition Libro_atributos :: "(string \<times> Libro atributo) list" where
  "Libro_atributos =
     [(''__tablename__'', Otro),
      (''ISBN'', ColStr Libro.ISBN),
      (''T'' @ [CHR 0xED] @ ''tulo'', ColStr Titulo),
      (''Publicaci'' @ [CHR 0xF3] @ ''n'', ColStr Publicacion),
      (''FechaPublicaci'' @ [CHR 0xF3] @ ''n'', Otro),
      (''IdCategor'' @ [CHR 0xED] @ ''a'', Otro),
      (''IdAutor'', Otro),
      (''OtrosDetalles'', Otro),
      (''Disponible'', Otro),
      (''autor'', Otro),
      (''categoria'', Otro),
      (''prestamos'', Otro)]"

definition Autor_atributos :: "(string \<times> Autor atributo) list" where
  "Autor_atributos =
     [(''__tablename__'', Otro),
      (''IdAutor'', Otro),
      (''Nombres'', ColStr Autor.Nombres),
      (''Apellidos'', ColStr Autor.Apellidos),
      (''Nacionalidad'', ColStr Nacionalidad),
      (''OtrosDetalles'', Otro),
      (''libros'', Otro),
      (''nombre_completo'', Otro)]"

definition getattr :: "string \<Rightarrow> (string \<times> 'a) list \<Rightarrow> string \<Rightarrow> excepcion + 'a" where
  "getattr clase atributos nombre =
     (case map_of atributos nombre of
        None \<Rightarrow> Inl (AttributeError clase nombre)
      | Some a \<Rightarrow> Inr a)"

text \<open>
  \<open>columna.like(patron)\<close> on a row. The LIKE operator belongs to the database and is a
  parameter, taking the pattern and the value.
\<close>

definition col_like :: "(string \<Rightarrow> string \<Rightarrow> bool) \<Rightarrow> 'r atributo \<Rightarrow> string \<Rightarrow> 'r \<Rightarrow> bool" where
  "col_like like c patron r = (case c of ColStr g \<Rightarrow> like patron (g r) | Otro \<Rightarrow> False)"

text \<open>
  \<open>buscar\<close>: the arguments of \<open>or_\<close> are evaluated from left to right while the query is
  being built, before \<open>all()\<close> sends it; the first of them reads \<open>Libro.Titulo\<close>, spelled
  without the accent. \<open>join(Autor)\<close> is an inner join on the foreign key \<open>IdAutor\<close>.
\<close>

definition buscar ::
  "(string \<Rightarrow> string \<Rightarrow> bool) \<Rightarrow> fallos \<Rightarrow> bd \<Rightarrow> string \<Rightarrow> excepcion + libro_cargado list" where
  "buscar like f db termino_busqueda =
     (case get_session_raises f of
        Some e \<Rightarrow> except_vacio f (Inl e)
      | None \<Rightarrow>
          finally_close f (except_vacio f
            (let patron = ''%'' @ termino_busqueda @ ''%'' in
             (case getattr ''Libro'' Libro_atributos ''Titulo'' of Inl e \<Rightarrow> Inl e | Inr c1 \<Rightarrow>
             (case getattr ''Libro'' Libro_atributos ''ISBN'' of Inl e \<Rightarrow> Inl e | Inr c2 \<Rightarrow>
             (case getattr ''Autor'' Autor_atributos ''Nombres'' of Inl e \<Rightarrow> Inl e | Inr c3 \<Rightarrow>
             (case getattr ''Autor'' Autor_atributos ''Apellidos'' of Inl e \<Rightarrow> Inl e | Inr c4 \<Rightarrow>
             (case query_libro_raises f of
                Some e \<Rightarrow> Inl e
              | None \<Rightarrow>
                  Inr (map (joinedload_libro db)
                         (filter (\<lambda>b. \<exists>a \<in> set (autores db).
                                    Autor.IdAutor a = Libro.IdAutor b \<and>
                                    (col_like like c1 patron b \<or> col_like like c2 patron b \<or>
                                     col_like like c3 patron a \<or> col_like like c4 patron a))
                            (libros db)))))))))))"

text \<open>
  A LIKE operator to put in the place of the parameter: \<open>%\<close> stands for any run of
  characters, \<open>_\<close> for any one character, every other character for itself.
\<close>

fun like_sql :: "string \<Rightarrow> string \<Rightarrow> bool" where
  "like_sql [] [] = True"
| "like_sql [] (c # cs) = False"
| "like_sql (p # ps) [] = (p = CHR ''%'' \<and> like_sql ps [])"
| "like_sql (p # ps) (c # cs) =
     (if p = CHR ''%'' then like_sql ps (c # cs) \<or> like_sql (p # ps) cs
      else (p = CHR ''_'' \<or> p = c) \<and> like_sql ps cs)"

section \<open>What the specification says about the search\<close>

text \<open>\<open>contiene t s\<close>: the term \<open>t\<close> occurs in \<open>s\<close> as a contiguous substring.\<close>

fun contiene :: "string \<Rightarrow> string \<Rightarrow> bool" where
  "contiene t [] = (t = [])"
| "contiene t (c # cs) = (take (length t) (c # cs) = t \<or> contiene t cs)"

text \<open>
  The search as the specification words it: the books whose title, ISBN, author first
  name or author last name contains the term, with author and category resolved.
\<close>

definition buscar_segun_spec :: "bd \<Rightarrow> string \<Rightarrow> libro_cargado list" where
  "buscar_segun_spec db t =
     map (joinedload_libro db)
       (filter (\<lambda>b. contiene t (Titulo b) \<or> contiene t (Libro.ISBN b) \<or>
                    (\<exists>a \<in> set (autores db). Autor.IdAutor a = Libro.IdAutor b \<and>
                       (contiene t (Autor.Nombres a) \<or> contiene t (Autor.Apellidos a))))
          (libros db))"

section \<open>The ledger invariant\<close>

text \<open>
  The primary keys of the three tables the loan service touches are unique; the database
  enforces it.
\<close>

definition claves_primarias :: "bd \<Rightarrow> bool" where
  "claves_primarias db =
     (distinct (map Libro.ISBN (libros db)) \<and>
      distinct (map Usuario.IdUsuario (usuarios db)) \<and>
      distinct (map IdPrestamo (prestamos db)))"

text \<open>
  A book's flag is \<open>False\<close> exactly when an open loan references the book, and no two open
  loans reference the same ISBN.
\<close>

definition ledger_inv :: "bd \<Rightarrow> bool" where
  "ledger_inv db =
     ((\<forall>b \<in> set (libros db).
         (Disponible b = Some False) =
         (\<exists>p \<in> set (prestamos db). abierto p \<and> Prestamo.ISBN p = Libro.ISBN b)) \<and>
      distinct (map Prestamo.ISBN (filter abierto (prestamos db))))"

text \<open>The open loans that reference a given ISBN.\<close>

definition prestamos_abiertos_de :: "bd \<Rightarrow> string \<Rightarrow> Prestamo list" where
  "prestamos_abiertos_de db isbn =
     filter (\<lambda>p. abierto p \<and> Prestamo.ISBN p = isbn) (prestamos db)"

text \<open>
  The two writes of each operation, as one step from \<open>db\<close> to \<open>db'\<close>: the loan inserted
  together with the flag cleared, the return date set together with the flag raised (the
  latter only if the book is found).
\<close>

definition ambas_escrituras_prestamo :: "bd \<Rightarrow> string \<Rightarrow> bd \<Rightarrow> bool" where
  "ambas_escrituras_prestamo db isbn db' =
     (prestamos db' \<noteq> [] \<and> abierto (last (prestamos db')) \<and>
      Prestamo.ISBN (last (prestamos db')) = isbn \<and>
      db' = db\<lparr>libros := set_Disponible isbn (Some False) (libros db),
                prestamos := prestamos db @ [last (prestamos db')]\<rparr>)"

definition ambas_escrituras_devolucion :: "bd \<Rightarrow> int \<Rightarrow> datetime \<Rightarrow> bd \<Rightarrow> bool" where
  "ambas_escrituras_devolucion db id_prestamo t db' =
     (case prestamo_first db id_prestamo of
        None \<Rightarrow> False
      | Some p \<Rightarrow>
          db' = db\<lparr>libros := (case libro_first db (Prestamo.ISBN p) of
                                None \<Rightarrow> libros db
                              | Some libro \<Rightarrow> set_Disponible (Prestamo.ISBN p) (Some True) (libros db)),
                    prestamos := set_FechaDevolucion id_prestamo (Some t) (prestamos db)\<rparr>)"

section \<open>A small library\<close>

definition garcia_marquez :: Autor where
  "garcia_marquez =
     \<lparr>Autor.IdAutor = 1, Autor.Nombres = ''Gabriel'',
      Autor.Apellidos = ''Garc'' @ [CHR 0xED] @ ''a M'' @ [CHR 0xE1] @ ''rquez'',
      Autor.Nacionalidad = ''Colombiana'', Autor.OtrosDetalles = None\<rparr>"

definition novela :: Categoria where
  "novela = \<lparr>Categoria.IdCategoria = 1, Categoria.Descripcion = ''Novela'',
             Categoria.OtrosDetalles = None\<rparr>"

definition cien_anos :: Libro where
  "cien_anos =
     \<lparr>Libro.ISBN = ''978-0001'', Libro.Titulo = ''Cien a'' @ [CHR 0xF1] @ ''os de soledad'',
      Libro.Publicacion = ''Sudamericana'', Libro.FechaPublicacion = 1967,
      Libro.IdCategoria = 1, Libro.IdAutor = 1, Libro.OtrosDetalles = None,
      Libro.Disponible = Some True\<rparr>"

definition el_amor :: Libro where
  "el_amor =
     \<lparr>Libro.ISBN = ''978-0002'', Libro.Titulo = ''El amor en los tiempos del c'' @ [CHR 0xF3] @ ''lera'',
      Libro.Publicacion = ''Oveja Negra'', Libro.FechaPublicacion = 1985,
      Libro.IdCategoria = 1, Libro.IdAutor = 1, Libro.OtrosDetalles = None,
      Libro.Disponible = Some True\<rparr>"

definition estudiante :: Usuario where
  "estudiante =
     \<lparr>Usuario.IdUsuario = 7, Usuario.Nombres = ''Estudiante'', Usuario.Apellidos = ''Uno'',
      Usuario.Direccion = None, Usuario.CorreoElectronico = None,
      Usuario.UsuarioActivo = Some True\<rparr>"

definition inactivo :: Usuario where
  "inactivo =
     \<lparr>Usuario.IdUsuario = 8, Usuario.Nombres = ''Estudiante'', Usuario.Apellidos = ''Dos'',
      Usuario.Direccion = None, Usuario.CorreoElectronico = None,
      Usuario.UsuarioActivo = Some False\<rparr>"

definition biblioteca :: bd where
  "biblioteca =
     \<lparr>autores = [garcia_marquez], categorias = [novela], libros = [cien_anos, el_amor],
      usuarios = [estudiante, inactivo], prestamos = []\<rparr>"

text \<open>The same library with the first book on loan to borrower 7, as loan 1.\<close>

definition prestamo_1 :: Prestamo where
  "prestamo_1 =
     \<lparr>Prestamo.IdPrestamo = 1, Prestamo.IdUsuario = 7, Prestamo.ISBN = ''978-0001'',
      Prestamo.FechaPrestamo = Some 100, Prestamo.FechaVencimiento = 100 + timedelta_days 14,
      Prestamo.FechaDevolucion = None, Prestamo.MultaPagar = Some 0,
      Prestamo.OtrosDetalles = None\<rparr>"

definition biblioteca_prestada :: bd where
  "biblioteca_prestada =
     biblioteca\<lparr>libros := [cien_anos\<lparr>Disponible := Some False\<rparr>, el_amor],
                prestamos := [prestamo_1]\<rparr>"

text \<open>The ledger after the book of loan 1 has been removed from the catalogue.\<close>

definition biblioteca_sin_libro :: bd where
  "biblioteca_sin_libro = biblioteca_prestada\<lparr>libros := [el_amor]\<rparr>"

text \<open>Faults: the named calls into the session raise, every other call goes through.\<close>

definition falla_query_usuario :: fallos where
  "falla_query_usuario = sin_fallos\<lparr>query_usuario_raises := Some (DBAPIError ''query'')\<rparr>"

definition falla_commit :: fallos where
  "falla_commit = sin_fallos\<lparr>commit_raises := Some (DBAPIError ''commit'')\<rparr>"

definition falla_query :: fallos where
  "falla_query =
     sin_fallos\<lparr>query_libro_raises := Some (DBAPIError ''query''),
                query_prestamo_raises := Some (DBAPIError ''query'')\<rparr>"

definition falla_get_session :: fallos where
  "falla_get_session =
     sin_fallos\<lparr>get_session_raises := Some (DBAPIError ''session''),
                close_raises := Some (DBAPIError ''close'')\<rparr>"

text \<open>The search term of the source's own test, \<open>test_controller.py\<close>.\<close>

definition garcia :: string where
  "garcia = ''Garc'' @ [CHR 0xED] @ ''a''"

definition falla_query_y_print :: fallos where
  "falla_query_y_print =
     sin_fallos\<lparr>query_libro_raises := Some (DBAPIError ''query''),
                query_prestamo_raises := Some (DBAPIError ''query''),
                print_raises := Some UnicodeEncodeError\<rparr>"

definition falla_commit_y_print :: fallos where
  "falla_commit_y_print =
     sin_fallos\<lparr>commit_raises := Some (DBAPIError ''commit''),
                print_raises := Some UnicodeEncodeError\<rparr>"

definition falla_commit_y_rollback :: fallos where
  "falla_commit_y_rollback =
     sin_fallos\<lparr>commit_raises := Some (DBAPIError ''commit''),
                rollback_raises := Some (DBAPIError ''rollback'')\<rparr>"

definition falla_query_y_close :: fallos where
  "falla_query_y_close =
     sin_fallos\<lparr>query_libro_raises := Some (DBAPIError ''query''),
                query_prestamo_raises := Some (DBAPIError ''query''),
                close_raises := Some (DBAPIError ''close'')\<rparr>"

section \<open>Lists, keys and the two writes\<close>

lemmas ejemplo_defs =
  biblioteca_def biblioteca_prestada_def biblioteca_sin_libro_def prestamo_1_def cien_anos_def
  el_amor_def estudiante_def inactivo_def garcia_marquez_def novela_def timedelta_days_def

lemmas operacion_defs =
  crear_prestamo_def crear_prestamo_try_def devolver_libro_def devolver_libro_try_def
  except_rollback_def finally_close_def libro_first_def usuario_first_def prestamo_first_def
  set_Disponible_def set_FechaDevolucion_def autoincrement_def

lemma find_SomeD: "find P xs = Some x \<Longrightarrow> x \<in> set xs \<and> P x"
  by (induction xs) (auto split: if_splits)

lemma autoincrement_fresh: "autoincrement ps \<notin> set (map IdPrestamo ps)"
proof
  assume "autoincrement ps \<in> set (map IdPrestamo ps)"
  then have "autoincrement ps \<le> Max (insert 0 (set (map IdPrestamo ps)))"
    by (intro Max_ge) auto
  then show False by (simp add: autoincrement_def)
qed

lemma ISBN_set_Disponible [simp]: "map Libro.ISBN (set_Disponible k v bs) = map Libro.ISBN bs"
  by (induction bs) (auto simp: set_Disponible_def)

lemma IdPrestamo_set_FechaDevolucion [simp]:
  "map IdPrestamo (set_FechaDevolucion k v ps) = map IdPrestamo ps"
  by (induction ps) (auto simp: set_FechaDevolucion_def)

lemma abiertos_set_FechaDevolucion:
  "filter abierto (set_FechaDevolucion k (Some t) ps) = filter (\<lambda>q. abierto q \<and> IdPrestamo q \<noteq> k) ps"
  by (induction ps) (auto simp: set_FechaDevolucion_def abierto_def)

lemma ledger_inv_prestar:
  assumes inv: "ledger_inv db" and l: "libro \<in> set (libros db)" and d: "Disponible libro \<noteq> Some False"
    and n: "abierto nuevo" "Prestamo.ISBN nuevo = Libro.ISBN libro"
  shows "ledger_inv (db\<lparr>libros := set_Disponible (Libro.ISBN libro) (Some False) (libros db),
                        prestamos := prestamos db @ [nuevo]\<rparr>)"
proof -
  from inv l d have libre: "\<forall>p \<in> set (prestamos db). abierto p \<longrightarrow> Prestamo.ISBN p \<noteq> Libro.ISBN libro"
    unfolding ledger_inv_def by blast
  have "distinct (map Prestamo.ISBN (filter abierto (prestamos db @ [nuevo])))"
    using inv n libre by (auto simp: ledger_inv_def)
  moreover have "\<forall>b \<in> set (set_Disponible (Libro.ISBN libro) (Some False) (libros db)).
         (Disponible b = Some False) =
         (\<exists>p \<in> set (prestamos db @ [nuevo]). abierto p \<and> Prestamo.ISBN p = Libro.ISBN b)"
  proof
    fix b assume "b \<in> set (set_Disponible (Libro.ISBN libro) (Some False) (libros db))"
    then obtain b0 where b0: "b0 \<in> set (libros db)"
      and b: "b = (if Libro.ISBN b0 = Libro.ISBN libro then b0\<lparr>Disponible := Some False\<rparr> else b0)"
      by (auto simp: set_Disponible_def)
    show "(Disponible b = Some False) =
         (\<exists>p \<in> set (prestamos db @ [nuevo]). abierto p \<and> Prestamo.ISBN p = Libro.ISBN b)"
    proof (cases "Libro.ISBN b0 = Libro.ISBN libro")
      case True
      with b n show ?thesis by auto
    next
      case False
      with b have "b = b0" by simp
      moreover from inv b0 have "(Disponible b0 = Some False) =
         (\<exists>p \<in> set (prestamos db). abierto p \<and> Prestamo.ISBN p = Libro.ISBN b0)"
        unfolding ledger_inv_def by blast
      ultimately show ?thesis using False n by auto
    qed
  qed
  ultimately show ?thesis by (simp add: ledger_inv_def)
qed

lemma ledger_inv_devolver:
  assumes inv: "ledger_inv db" and pk: "distinct (map IdPrestamo (prestamos db))"
    and p: "p \<in> set (prestamos db)" "abierto p"
    and bs: "bs = (case libro_first db (Prestamo.ISBN p) of
                      None \<Rightarrow> libros db
                    | Some libro \<Rightarrow> set_Disponible (Libro.ISBN libro) (Some True) (libros db))"
  shows "ledger_inv (db\<lparr>libros := bs,
                        prestamos := set_FechaDevolucion (IdPrestamo p) (Some t) (prestamos db)\<rparr>)"
proof -
  let ?ps = "set_FechaDevolucion (IdPrestamo p) (Some t) (prestamos db)"
  have ab: "filter abierto ?ps = filter (\<lambda>q. abierto q \<and> IdPrestamo q \<noteq> IdPrestamo p) (prestamos db)"
    by (rule abiertos_set_FechaDevolucion)
  have same_id: "q = p" if "q \<in> set (prestamos db)" "IdPrestamo q = IdPrestamo p" for q
    using pk p(1) that by (meson distinct_map inj_onD)
  from inv have dis: "distinct (map Prestamo.ISBN (filter abierto (prestamos db)))"
    by (simp add: ledger_inv_def)
  have same_isbn: "q = p" if "q \<in> set (prestamos db)" "abierto q" "Prestamo.ISBN q = Prestamo.ISBN p" for q
  proof -
    from dis have "inj_on Prestamo.ISBN (set (filter abierto (prestamos db)))"
      by (simp add: distinct_map)
    then show ?thesis using that p by (auto dest: inj_onD)
  qed
  have d': "distinct (map Prestamo.ISBN (filter abierto ?ps))"
  proof -
    have "filter (\<lambda>q. abierto q \<and> IdPrestamo q \<noteq> IdPrestamo p) (prestamos db)
          = filter (\<lambda>q. IdPrestamo q \<noteq> IdPrestamo p) (filter abierto (prestamos db))"
      by (simp add: conj_commute)
    with dis show ?thesis unfolding ab by (simp only: distinct_map_filter)
  qed
  have ex: "(\<exists>q \<in> set ?ps. abierto q \<and> Prestamo.ISBN q = k) =
            (k \<noteq> Prestamo.ISBN p \<and> (\<exists>q \<in> set (prestamos db). abierto q \<and> Prestamo.ISBN q = k))" for k
  proof -
    have "(\<exists>q \<in> set ?ps. abierto q \<and> Prestamo.ISBN q = k) =
          (\<exists>q \<in> set (filter abierto ?ps). Prestamo.ISBN q = k)" by auto
    also have "\<dots> = (\<exists>q \<in> set (prestamos db). abierto q \<and> IdPrestamo q \<noteq> IdPrestamo p \<and> Prestamo.ISBN q = k)"
      unfolding ab by auto
    also have "\<dots> = (k \<noteq> Prestamo.ISBN p \<and> (\<exists>q \<in> set (prestamos db). abierto q \<and> Prestamo.ISBN q = k))"
      using same_id same_isbn by blast
    finally show ?thesis .
  qed
  have "\<forall>b \<in> set bs. (Disponible b = Some False) =
         (\<exists>q \<in> set ?ps. abierto q \<and> Prestamo.ISBN q = Libro.ISBN b)"
  proof
    fix b assume b: "b \<in> set bs"
    show "(Disponible b = Some False) =
         (\<exists>q \<in> set ?ps. abierto q \<and> Prestamo.ISBN q = Libro.ISBN b)"
    proof (cases "libro_first db (Prestamo.ISBN p)")
      case None
      with bs b have b0: "b \<in> set (libros db)" by simp
      from None have "Libro.ISBN b \<noteq> Prestamo.ISBN p"
        using b0 by (auto simp: libro_first_def find_None_iff)
      moreover from inv b0 have "(Disponible b = Some False) =
         (\<exists>q \<in> set (prestamos db). abierto q \<and> Prestamo.ISBN q = Libro.ISBN b)"
        unfolding ledger_inv_def by blast
      ultimately show ?thesis by (simp add: ex)
    next
      case (Some libro)
      then have k: "Libro.ISBN libro = Prestamo.ISBN p"
        by (auto simp: libro_first_def dest: find_SomeD)
      from Some bs b k obtain b0 where b0: "b0 \<in> set (libros db)"
        and bb: "b = (if Libro.ISBN b0 = Prestamo.ISBN p then b0\<lparr>Disponible := Some True\<rparr> else b0)"
        by (auto simp: set_Disponible_def)
      show ?thesis
      proof (cases "Libro.ISBN b0 = Prestamo.ISBN p")
        case True
        with bb show ?thesis by (simp add: ex)
      next
        case False
        with bb have "b = b0" by simp
        moreover from inv b0 have "(Disponible b0 = Some False) =
           (\<exists>q \<in> set (prestamos db). abierto q \<and> Prestamo.ISBN q = Libro.ISBN b0)"
          unfolding ledger_inv_def by blast
        ultimately show ?thesis using False by (simp add: ex)
      qed
    qed
  qed
  with d' show ?thesis by (simp add: ledger_inv_def)
qed

lemma crear_prestamo_db_cases:
  "snd (crear_prestamo f t1 t2 db isbn uid) = db \<or>
   (\<exists>libro. libro_first db isbn = Some libro \<and> truthy (Disponible libro) \<and>
      snd (crear_prestamo f t1 t2 db isbn uid) =
        db\<lparr>libros := set_Disponible (Libro.ISBN libro) (Some False) (libros db),
           prestamos := prestamos db @
             [\<lparr>Prestamo.IdPrestamo = autoincrement (prestamos db),
                 Prestamo.IdUsuario = uid,
                 Prestamo.ISBN = isbn,
                 Prestamo.FechaPrestamo = Some t1,
                 Prestamo.FechaVencimiento = t2 + timedelta_days 14,
                 Prestamo.FechaDevolucion = None,
                 Prestamo.MultaPagar = Some 0,
                 Prestamo.OtrosDetalles = None\<rparr>]\<rparr>)"
  by (auto simp: crear_prestamo_def crear_prestamo_try_def except_rollback_def finally_close_def Let_def
      split: option.splits)

lemma devolver_libro_db_cases:
  "snd (devolver_libro f t db idp) = db \<or>
   (\<exists>p. prestamo_first db idp = Some p \<and> FechaDevolucion p = None \<and>
      snd (devolver_libro f t db idp) =
        db\<lparr>libros := (case libro_first db (Prestamo.ISBN p) of
                      None \<Rightarrow> libros db
                    | Some libro \<Rightarrow> set_Disponible (Libro.ISBN libro) (Some True) (libros db)),
           prestamos := set_FechaDevolucion (IdPrestamo p) (Some t) (prestamos db)\<rparr>)"
  by (auto simp: devolver_libro_def devolver_libro_try_def except_rollback_def finally_close_def Let_def
      split: option.splits)

lemma crear_prestamo_inv:
  assumes "ledger_inv db"
  shows "ledger_inv (snd (crear_prestamo f t1 t2 db isbn uid))"
  using crear_prestamo_db_cases [of f t1 t2 db isbn uid]
proof (elim disjE exE conjE)
  assume "snd (crear_prestamo f t1 t2 db isbn uid) = db"
  with assms show ?thesis by simp
next
  fix libro
  assume l: "libro_first db isbn = Some libro" and d: "truthy (Disponible libro)"
    and eq: "snd (crear_prestamo f t1 t2 db isbn uid) =
        db\<lparr>libros := set_Disponible (Libro.ISBN libro) (Some False) (libros db),
           prestamos := prestamos db @
             [\<lparr>Prestamo.IdPrestamo = autoincrement (prestamos db),
                 Prestamo.IdUsuario = uid,
                 Prestamo.ISBN = isbn,
                 Prestamo.FechaPrestamo = Some t1,
                 Prestamo.FechaVencimiento = t2 + timedelta_days 14,
                 Prestamo.FechaDevolucion = None,
                 Prestamo.MultaPagar = Some 0,
                 Prestamo.OtrosDetalles = None\<rparr>]\<rparr>"
  from l have m: "libro \<in> set (libros db)" and k: "Libro.ISBN libro = isbn"
    by (auto simp: libro_first_def dest: find_SomeD)
  from d have "Disponible libro \<noteq> Some False" by auto
  with assms m k show ?thesis unfolding eq
    by (intro ledger_inv_prestar) (simp_all add: abierto_def)
qed

lemma crear_prestamo_claves:
  assumes "claves_primarias db"
  shows "claves_primarias (snd (crear_prestamo f t1 t2 db isbn uid))"
  using crear_prestamo_db_cases [of f t1 t2 db isbn uid] assms autoincrement_fresh [of "prestamos db"]
  by (auto simp: claves_primarias_def)

lemma devolver_libro_inv:
  assumes "claves_primarias db" "ledger_inv db"
  shows "ledger_inv (snd (devolver_libro f t db idp))"
  using devolver_libro_db_cases [of f t db idp]
proof (elim disjE exE conjE)
  assume "snd (devolver_libro f t db idp) = db"
  with assms show ?thesis by simp
next
  fix p
  assume l: "prestamo_first db idp = Some p" and d: "FechaDevolucion p = None"
    and eq: "snd (devolver_libro f t db idp) =
        db\<lparr>libros := (case libro_first db (Prestamo.ISBN p) of
                      None \<Rightarrow> libros db
                    | Some libro \<Rightarrow> set_Disponible (Libro.ISBN libro) (Some True) (libros db)),
           prestamos := set_FechaDevolucion (IdPrestamo p) (Some t) (prestamos db)\<rparr>"
  from l have m: "p \<in> set (prestamos db)"
    by (auto simp: prestamo_first_def dest: find_SomeD)
  from assms(1) have "distinct (map IdPrestamo (prestamos db))" by (simp add: claves_primarias_def)
  with assms(2) m d show ?thesis unfolding eq
    by (intro ledger_inv_devolver) (simp_all add: abierto_def)
qed

lemma devolver_libro_claves:
  assumes "claves_primarias db"
  shows "claves_primarias (snd (devolver_libro f t db idp))"
  using devolver_libro_db_cases [of f t db idp] assms
  by (auto simp: claves_primarias_def split: option.splits)

lemma find_set_Disponible:
  "find (\<lambda>b. Libro.ISBN b = isbn) (set_Disponible k v bs) =
   map_option (\<lambda>b. if Libro.ISBN b = k then b\<lparr>Disponible := v\<rparr> else b)
     (find (\<lambda>b. Libro.ISBN b = isbn) bs)"
  by (induction bs) (auto simp: set_Disponible_def)

lemma find_set_FechaDevolucion:
  "find (\<lambda>p. IdPrestamo p = i) (set_FechaDevolucion k v ps) =
   map_option (\<lambda>p. if IdPrestamo p = k then p\<lparr>FechaDevolucion := v\<rparr> else p)
     (find (\<lambda>p. IdPrestamo p = i) ps)"
  by (induction ps) (auto simp: set_FechaDevolucion_def)

text \<open>What a successful run of \<open>crear_prestamo\<close> needs and leaves, for any faults.\<close>

lemma crear_prestamo_exito_D:
  assumes "exito (fst (crear_prestamo f t1 t2 db isbn uid))"
  shows "\<exists>libro usuario. libro_first db isbn = Some libro \<and> Disponible libro = Some True \<and>
      usuario_first db uid = Some usuario \<and>
      crear_prestamo f t1 t2 db isbn uid =
        (Inr (True, PrestamoRealizado),
         db\<lparr>libros := set_Disponible isbn (Some False) (libros db),
           prestamos := prestamos db @
             [\<lparr>Prestamo.IdPrestamo = autoincrement (prestamos db),
                 Prestamo.IdUsuario = uid,
                 Prestamo.ISBN = isbn,
                 Prestamo.FechaPrestamo = Some t1,
                 Prestamo.FechaVencimiento = t2 + timedelta_days 14,
                 Prestamo.FechaDevolucion = None,
                 Prestamo.MultaPagar = Some 0,
                 Prestamo.OtrosDetalles = None\<rparr>]\<rparr>)"
proof -
  have k: "libro_first db isbn = Some libro \<Longrightarrow> Libro.ISBN libro = isbn" for libro
    by (auto simp: libro_first_def dest: find_SomeD)
  have t: "truthy d \<Longrightarrow> d = Some True" for d by (cases d) auto
  from assms show ?thesis
    by (auto simp: crear_prestamo_def crear_prestamo_try_def except_rollback_def finally_close_def
        Let_def k t split: option.splits if_splits)
qed

lemma crear_prestamo_sin_fallos:
  assumes "libro_first db isbn = Some libro" "Disponible libro = Some True"
    "usuario_first db uid = Some usuario"
  shows "fst (crear_prestamo sin_fallos t1 t2 db isbn uid) = Inr (True, PrestamoRealizado)"
  using assms
  by (simp add: crear_prestamo_def crear_prestamo_try_def except_rollback_def finally_close_def
      sin_fallos_def Let_def)

text \<open>What a successful run of \<open>devolver_libro\<close> needs and leaves, for any faults.\<close>

lemma devolver_libro_exito_D:
  assumes "exito (fst (devolver_libro f t db idp))"
  shows "\<exists>p. prestamo_first db idp = Some p \<and> FechaDevolucion p = None \<and>
      devolver_libro f t db idp =
        (Inr (True, LibroDevuelto),
         db\<lparr>libros := (case libro_first db (Prestamo.ISBN p) of
                      None \<Rightarrow> libros db
                    | Some libro \<Rightarrow> set_Disponible (Prestamo.ISBN p) (Some True) (libros db)),
           prestamos := set_FechaDevolucion idp (Some t) (prestamos db)\<rparr>)"
proof -
  have k: "libro_first db isbn = Some libro \<Longrightarrow> Libro.ISBN libro = isbn" for libro isbn
    by (auto simp: libro_first_def dest: find_SomeD)
  have i: "prestamo_first db idp = Some p \<Longrightarrow> IdPrestamo p = idp" for p
    by (auto simp: prestamo_first_def dest: find_SomeD)
  from assms show ?thesis
    by (auto simp: devolver_libro_def devolver_libro_try_def except_rollback_def finally_close_def
        Let_def k i split: option.splits if_splits)
qed

lemma devolver_libro_sin_fallos:
  assumes "prestamo_first db idp = Some p" "FechaDevolucion p = None"
  shows "fst (devolver_libro sin_fallos t db idp) = Inr (True, LibroDevuelto)"
  using assms
  by (simp add: devolver_libro_def devolver_libro_try_def except_rollback_def finally_close_def
      sin_fallos_def Let_def)

lemma devolver_libro_ya_devuelto:
  assumes "prestamo_first db idp = Some p" "FechaDevolucion p = Some d"
  shows "devolver_libro sin_fallos t db idp = (Inr (False, PrestamoYaDevuelto), db)"
  using assms
  by (simp add: devolver_libro_def devolver_libro_try_def except_rollback_def finally_close_def
      sin_fallos_def Let_def)

lemma devolver_libro_post:
  assumes ok: "exito (fst (devolver_libro g t db id_prestamo))"
  shows "\<exists>p p'. prestamo_first db id_prestamo = Some p \<and> FechaDevolucion p = None \<and>
         prestamo_first (snd (devolver_libro g t db id_prestamo)) id_prestamo = Some p' \<and>
         FechaDevolucion p' = Some t \<and>
         (case libro_first db (Prestamo.ISBN p) of
            Some b \<Rightarrow>
              (\<exists>b'. libro_first (snd (devolver_libro g t db id_prestamo)) (Prestamo.ISBN p) = Some b' \<and>
                    Disponible b' = Some True)
          | None \<Rightarrow> libros (snd (devolver_libro g t db id_prestamo)) = libros db)"
proof -
  from devolver_libro_exito_D [OF ok] obtain p where
    p: "prestamo_first db id_prestamo = Some p" "FechaDevolucion p = None"
    and eq: "snd (devolver_libro g t db id_prestamo) =
       db\<lparr>libros := (case libro_first db (Prestamo.ISBN p) of
                    None \<Rightarrow> libros db
                  | Some libro \<Rightarrow> set_Disponible (Prestamo.ISBN p) (Some True) (libros db)),
         prestamos := set_FechaDevolucion id_prestamo (Some t) (prestamos db)\<rparr>"
    by auto
  from p have i: "IdPrestamo p = id_prestamo"
    by (auto simp: prestamo_first_def dest: find_SomeD)
  have 1: "prestamo_first (snd (devolver_libro g t db id_prestamo)) id_prestamo
             = Some (p\<lparr>FechaDevolucion := Some t\<rparr>)"
    using p i unfolding eq by (simp add: prestamo_first_def find_set_FechaDevolucion)
  have 2: "(case libro_first db (Prestamo.ISBN p) of
          Some b \<Rightarrow>
            (\<exists>b'. libro_first (snd (devolver_libro g t db id_prestamo)) (Prestamo.ISBN p) = Some b' \<and>
                  Disponible b' = Some True)
        | None \<Rightarrow> libros (snd (devolver_libro g t db id_prestamo)) = libros db)"
  proof (cases "libro_first db (Prestamo.ISBN p)")
    case None
    then show ?thesis unfolding eq by simp
  next
    case (Some b)
    then have "Libro.ISBN b = Prestamo.ISBN p"
      by (auto simp: libro_first_def dest: find_SomeD)
    with Some show ?thesis unfolding eq
      by (simp add: libro_first_def find_set_Disponible)
  qed
  from p 1 2 show ?thesis by simp
qed

lemma crear_prestamo_atomico:
  "snd (crear_prestamo f t1 t2 db isbn uid) = db \<or>
   ambas_escrituras_prestamo db isbn (snd (crear_prestamo f t1 t2 db isbn uid))"
proof -
  have k: "libro_first db isbn = Some libro \<Longrightarrow> Libro.ISBN libro = isbn" for libro
    by (auto simp: libro_first_def dest: find_SomeD)
  from crear_prestamo_db_cases [of f t1 t2 db isbn uid] show ?thesis
    by (auto simp: ambas_escrituras_prestamo_def abierto_def k)
qed

lemma devolver_libro_atomico:
  "snd (devolver_libro f t db idp) = db \<or>
   ambas_escrituras_devolucion db idp t (snd (devolver_libro f t db idp))"
proof -
  have k: "libro_first db isbn = Some libro \<Longrightarrow> Libro.ISBN libro = isbn" for libro isbn
    by (auto simp: libro_first_def dest: find_SomeD)
  have i: "prestamo_first db idp = Some p \<Longrightarrow> IdPrestamo p = idp" for p
    by (auto simp: prestamo_first_def dest: find_SomeD)
  from devolver_libro_db_cases [of f t db idp] show ?thesis
    by (auto simp: ambas_escrituras_devolucion_def k i split: option.splits)
qed

lemma crear_prestamo_par:
  assumes "get_session_raises f = None" "rollback_raises f = None" "close_raises f = None"
    "print_raises f = None"
  shows "(\<exists>ok m. fst (crear_prestamo f t1 t2 db isbn uid) = Inr (ok, m)) \<and>
         (\<not> exito (fst (crear_prestamo f t1 t2 db isbn uid)) \<longrightarrow>
            snd (crear_prestamo f t1 t2 db isbn uid) = db)"
  using assms
  by (auto simp: crear_prestamo_def crear_prestamo_try_def except_rollback_def finally_close_def
      Let_def split: option.splits)

lemma devolver_libro_par:
  assumes "get_session_raises f = None" "rollback_raises f = None" "close_raises f = None"
  shows "(\<exists>ok m. fst (devolver_libro f t db idp) = Inr (ok, m)) \<and>
         (\<not> exito (fst (devolver_libro f t db idp)) \<longrightarrow> snd (devolver_libro f t db idp) = db)"
  using assms
  by (auto simp: devolver_libro_def devolver_libro_try_def except_rollback_def finally_close_def
      Let_def split: option.splits)

lemma crear_prestamo_exito_escrituras:
  assumes "exito (fst (crear_prestamo f t1 t2 db isbn uid))"
  shows "ambas_escrituras_prestamo db isbn (snd (crear_prestamo f t1 t2 db isbn uid))"
  using crear_prestamo_exito_D [OF assms]
  by (auto simp: ambas_escrituras_prestamo_def abierto_def)

lemma devolver_libro_exito_escrituras:
  assumes "exito (fst (devolver_libro f t db idp))"
  shows "ambas_escrituras_devolucion db idp t (snd (devolver_libro f t db idp))"
  using devolver_libro_exito_D [OF assms]
  by (auto simp: ambas_escrituras_devolucion_def)

text \<open>The class \<open>Libro\<close> binds no attribute of the name \<open>buscar\<close> reads first.\<close>

lemma Libro_Titulo_AttributeError:
  "getattr ''Libro'' Libro_atributos ''Titulo'' = Inl (AttributeError ''Libro'' ''Titulo'')"
  by (simp add: getattr_def Libro_atributos_def)

lemma buscar_AttributeError:
  "buscar like f db t =
     (case get_session_raises f of
        Some e \<Rightarrow> except_vacio f (Inl e)
      | None \<Rightarrow> finally_close f (except_vacio f (Inl (AttributeError ''Libro'' ''Titulo''))))"
  by (simp add: buscar_def Libro_Titulo_AttributeError split: option.splits)

section \<open>The claims\<close>

text \<open>
  C1. Both operations of the loan service preserve the ledger invariant, whatever their
  result and whichever calls into the session raise: if the primary keys are unique and
  \<open>ledger_inv\<close> holds of the database before \<open>crear_prestamo\<close> or \<open>devolver_libro\<close>,
  both hold of the database afterwards.
\<close>

theorem ledger_inv_preserved:
  assumes "claves_primarias db" and "ledger_inv db"
  shows "ledger_inv (snd (crear_prestamo f t1 t2 db isbn usuario_id)) \<and>
         claves_primarias (snd (crear_prestamo f t1 t2 db isbn usuario_id)) \<and>
         ledger_inv (snd (devolver_libro f t db id_prestamo)) \<and>
         claves_primarias (snd (devolver_libro f t db id_prestamo))"
  using assms
  by (simp add: crear_prestamo_inv crear_prestamo_claves devolver_libro_inv devolver_libro_claves)

theorem ledger_inv_preserved_witness:
  "claves_primarias biblioteca_prestada \<and> ledger_inv biblioteca_prestada \<and>
   ledger_inv (snd (crear_prestamo sin_fallos 200 201 biblioteca_prestada ''978-0002'' 8)) \<and>
   claves_primarias (snd (crear_prestamo sin_fallos 200 201 biblioteca_prestada ''978-0002'' 8)) \<and>
   ledger_inv (snd (devolver_libro sin_fallos 300 biblioteca_prestada 1)) \<and>
   claves_primarias (snd (devolver_libro sin_fallos 300 biblioteca_prestada 1)) \<and>
   exito (fst (crear_prestamo sin_fallos 200 201 biblioteca_prestada ''978-0002'' 8)) \<and>
   exito (fst (devolver_libro sin_fallos 300 biblioteca_prestada 1))"
proof -
  have h1: "claves_primarias biblioteca_prestada"
    by (simp add: claves_primarias_def ejemplo_defs)
  have h2: "ledger_inv biblioteca_prestada"
    by (simp add: ledger_inv_def abierto_def ejemplo_defs)
  have h3: "exito (fst (crear_prestamo sin_fallos 200 201 biblioteca_prestada ''978-0002'' 8))"
    by (simp add: operacion_defs sin_fallos_def ejemplo_defs)
  have h4: "exito (fst (devolver_libro sin_fallos 300 biblioteca_prestada 1))"
    by (simp add: operacion_defs sin_fallos_def ejemplo_defs)
  from ledger_inv_preserved [OF h1 h2, of sin_fallos 200 201 "''978-0002''" 8 300 1] h1 h2 h3 h4
  show ?thesis by simp
qed

text \<open>
  C2. When no call into the session raises, \<open>crear_prestamo\<close> returns success exactly
  when the book exists, its flag is \<open>True\<close> and the borrower exists. Whenever it returns
  success, under any faults, those three conditions held and the book's flag is \<open>False\<close>
  afterwards; and if the ledger invariant held before, exactly one open loan references
  the book afterwards.
\<close>

theorem crear_prestamo_exito_iff:
  "(exito (fst (crear_prestamo sin_fallos t1 t2 db isbn usuario_id)) =
            ((\<exists>b. libro_first db isbn = Some b \<and> Disponible b = Some True) \<and>
             (\<exists>u. usuario_first db usuario_id = Some u))) \<and>
         (exito (fst (crear_prestamo f t1 t2 db isbn usuario_id)) \<longrightarrow>
            (\<exists>b. libro_first db isbn = Some b \<and> Disponible b = Some True) \<and>
            (\<exists>u. usuario_first db usuario_id = Some u) \<and>
            (\<exists>b'. libro_first (snd (crear_prestamo f t1 t2 db isbn usuario_id)) isbn = Some b' \<and>
                  Disponible b' = Some False) \<and>
            (ledger_inv db \<longrightarrow>
               length (prestamos_abiertos_de (snd (crear_prestamo f t1 t2 db isbn usuario_id)) isbn) = 1))"
proof (intro conjI impI)
  show "exito (fst (crear_prestamo sin_fallos t1 t2 db isbn usuario_id)) =
            ((\<exists>b. libro_first db isbn = Some b \<and> Disponible b = Some True) \<and>
             (\<exists>u. usuario_first db usuario_id = Some u))"
    using crear_prestamo_exito_D [of sin_fallos t1 t2 db isbn usuario_id]
      crear_prestamo_sin_fallos [of db isbn _ usuario_id _ t1 t2]
    by auto
next
  assume ok: "exito (fst (crear_prestamo f t1 t2 db isbn usuario_id))"
  from crear_prestamo_exito_D [OF ok] obtain libro usuario where
    l: "libro_first db isbn = Some libro" "Disponible libro = Some True"
    and u: "usuario_first db usuario_id = Some usuario"
    and eq: "snd (crear_prestamo f t1 t2 db isbn usuario_id) =
         db\<lparr>libros := set_Disponible isbn (Some False) (libros db),
           prestamos := prestamos db @
             [\<lparr>Prestamo.IdPrestamo = autoincrement (prestamos db),
                 Prestamo.IdUsuario = usuario_id,
                 Prestamo.ISBN = isbn,
                 Prestamo.FechaPrestamo = Some t1,
                 Prestamo.FechaVencimiento = t2 + timedelta_days 14,
                 Prestamo.FechaDevolucion = None,
                 Prestamo.MultaPagar = Some 0,
                 Prestamo.OtrosDetalles = None\<rparr>]\<rparr>"
    by auto
  from l show "\<exists>b. libro_first db isbn = Some b \<and> Disponible b = Some True" by blast
  from u show "\<exists>u. usuario_first db usuario_id = Some u" by blast
  from l have k: "Libro.ISBN libro = isbn" and m: "libro \<in> set (libros db)"
    by (auto simp: libro_first_def dest: find_SomeD)
  show "\<exists>b'. libro_first (snd (crear_prestamo f t1 t2 db isbn usuario_id)) isbn = Some b' \<and>
                  Disponible b' = Some False"
    using l k unfolding eq by (simp add: libro_first_def find_set_Disponible)
  assume inv: "ledger_inv db"
  from inv m l k have "\<forall>p \<in> set (prestamos db). \<not> (abierto p \<and> Prestamo.ISBN p = isbn)"
    unfolding ledger_inv_def by (metis option.inject)
  then have "filter (\<lambda>p. abierto p \<and> Prestamo.ISBN p = isbn) (prestamos db) = []"
    by (simp add: filter_empty_conv)
  then show "length (prestamos_abiertos_de (snd (crear_prestamo f t1 t2 db isbn usuario_id)) isbn) = 1"
    unfolding eq by (simp add: prestamos_abiertos_de_def abierto_def)
qed

theorem crear_prestamo_exito_iff_witness:
  "ledger_inv biblioteca_prestada \<and>
   exito (fst (crear_prestamo sin_fallos 200 201 biblioteca_prestada ''978-0002'' 8)) \<and>
   libro_first biblioteca_prestada ''978-0002'' = Some el_amor \<and>
   Disponible el_amor = Some True \<and>
   usuario_first biblioteca_prestada 8 = Some inactivo \<and>
   length (prestamos_abiertos_de
     (snd (crear_prestamo sin_fallos 200 201 biblioteca_prestada ''978-0002'' 8)) ''978-0002'') = 1 \<and>
   \<not> exito (fst (crear_prestamo sin_fallos 200 201 biblioteca_prestada ''978-0001'' 8))"
proof -
  have h: "ledger_inv biblioteca_prestada"
    by (simp add: ledger_inv_def abierto_def ejemplo_defs)
  have b: "libro_first biblioteca_prestada ''978-0002'' = Some el_amor"
    "Disponible el_amor = Some True"
    "usuario_first biblioteca_prestada 8 = Some inactivo"
    by (simp_all add: libro_first_def usuario_first_def ejemplo_defs)
  have n: "libro_first biblioteca_prestada ''978-0001'' = Some (cien_anos\<lparr>Disponible := Some False\<rparr>)"
    by (simp add: libro_first_def ejemplo_defs)
  from crear_prestamo_exito_iff [of 200 201 biblioteca_prestada "''978-0002''" 8 sin_fallos]
    crear_prestamo_exito_iff [of 200 201 biblioteca_prestada "''978-0001''" 8 sin_fallos] h b n
  show ?thesis by simp
qed

text \<open>
  C3. When no call into the session raises, \<open>devolver_libro\<close> returns success exactly
  when a loan with the given id exists and its \<open>FechaDevolucion\<close> is NULL. Whenever it
  returns success, under any faults, the loan's \<open>FechaDevolucion\<close> is set afterwards and
  the referenced book, if it exists, has its flag \<open>True\<close>; if the book does not exist the
  catalogue is left as it was. In particular the return of a loan whose book is gone
  succeeds and marks the loan returned.
\<close>

theorem devolver_libro_exito_iff:
  "(exito (fst (devolver_libro sin_fallos t db id_prestamo)) =
      (\<exists>p. prestamo_first db id_prestamo = Some p \<and> FechaDevolucion p = None)) \<and>
   (exito (fst (devolver_libro f t db id_prestamo)) \<longrightarrow>
      (\<exists>p p'. prestamo_first db id_prestamo = Some p \<and> FechaDevolucion p = None \<and>
         prestamo_first (snd (devolver_libro f t db id_prestamo)) id_prestamo = Some p' \<and>
         FechaDevolucion p' = Some t \<and>
         (case libro_first db (Prestamo.ISBN p) of
            Some b \<Rightarrow>
              (\<exists>b'. libro_first (snd (devolver_libro f t db id_prestamo)) (Prestamo.ISBN p) = Some b' \<and>
                    Disponible b' = Some True)
          | None \<Rightarrow> libros (snd (devolver_libro f t db id_prestamo)) = libros db))) \<and>
   (\<forall>p. prestamo_first db id_prestamo = Some p \<and> FechaDevolucion p = None \<and>
        libro_first db (Prestamo.ISBN p) = None \<longrightarrow>
        fst (devolver_libro sin_fallos t db id_prestamo) = Inr (True, LibroDevuelto) \<and>
        libros (snd (devolver_libro sin_fallos t db id_prestamo)) = libros db \<and>
        (\<exists>p'. prestamo_first (snd (devolver_libro sin_fallos t db id_prestamo)) id_prestamo = Some p' \<and>
              FechaDevolucion p' = Some t))"
proof -
  have iff: "exito (fst (devolver_libro sin_fallos t db id_prestamo)) =
      (\<exists>p. prestamo_first db id_prestamo = Some p \<and> FechaDevolucion p = None)"
    using devolver_libro_exito_D [of sin_fallos t db id_prestamo]
      devolver_libro_sin_fallos [of db id_prestamo _ t]
    by auto
  note post = devolver_libro_post
  have huerfano: "fst (devolver_libro sin_fallos t db id_prestamo) = Inr (True, LibroDevuelto) \<and>
        libros (snd (devolver_libro sin_fallos t db id_prestamo)) = libros db \<and>
        (\<exists>p'. prestamo_first (snd (devolver_libro sin_fallos t db id_prestamo)) id_prestamo = Some p' \<and>
              FechaDevolucion p' = Some t)"
    if p: "prestamo_first db id_prestamo = Some p" "FechaDevolucion p = None"
      and n: "libro_first db (Prestamo.ISBN p) = None" for p
  proof -
    from devolver_libro_sin_fallos [OF p]
    have r: "fst (devolver_libro sin_fallos t db id_prestamo) = Inr (True, LibroDevuelto)" .
    then have "exito (fst (devolver_libro sin_fallos t db id_prestamo))" by simp
    from post [OF this] p n r show ?thesis by auto
  qed
  from iff post huerfano show ?thesis by blast
qed

theorem devolver_libro_exito_iff_witness:
  "exito (fst (devolver_libro sin_fallos 300 biblioteca_prestada 1)) \<and>
   prestamo_first biblioteca_prestada 1 = Some prestamo_1 \<and> FechaDevolucion prestamo_1 = None \<and>
   libro_first (snd (devolver_libro sin_fallos 300 biblioteca_prestada 1)) ''978-0001'' = Some cien_anos \<and>
   libro_first biblioteca_sin_libro (Prestamo.ISBN prestamo_1) = None \<and>
   fst (devolver_libro sin_fallos 300 biblioteca_sin_libro 1) = Inr (True, LibroDevuelto) \<and>
   libros (snd (devolver_libro sin_fallos 300 biblioteca_sin_libro 1)) = libros biblioteca_sin_libro \<and>
   prestamo_first (snd (devolver_libro sin_fallos 300 biblioteca_sin_libro 1)) 1
     = Some (prestamo_1\<lparr>FechaDevolucion := Some 300\<rparr>)"
proof -
  have a: "prestamo_first biblioteca_prestada 1 = Some prestamo_1"
    "prestamo_first biblioteca_sin_libro 1 = Some prestamo_1"
    "FechaDevolucion prestamo_1 = None"
    "libro_first biblioteca_sin_libro (Prestamo.ISBN prestamo_1) = None"
    by (simp_all add: prestamo_first_def libro_first_def ejemplo_defs)
  have b: "libro_first (snd (devolver_libro sin_fallos 300 biblioteca_prestada 1)) ''978-0001'' = Some cien_anos"
    by (simp add: operacion_defs sin_fallos_def ejemplo_defs)
  have c: "prestamo_first (snd (devolver_libro sin_fallos 300 biblioteca_sin_libro 1)) 1
     = Some (prestamo_1\<lparr>FechaDevolucion := Some 300\<rparr>)"
    by (simp add: operacion_defs sin_fallos_def ejemplo_defs)
  from devolver_libro_exito_iff [of 300 biblioteca_prestada 1 sin_fallos]
    devolver_libro_exito_iff [of 300 biblioteca_sin_libro 1 sin_fallos] a b c
  show ?thesis by simp
qed

text \<open>
  C6. For every loan in the ledger, when no call into the session raises, a second
  \<open>devolver_libro\<close> right after a first one fails with the message that the loan was
  already returned and leaves the whole database, book flags included, as the first call
  left it.
\<close>

theorem devolver_libro_dos_veces:
  assumes "prestamo_first db id_prestamo \<noteq> None"
  shows "devolver_libro sin_fallos t' (snd (devolver_libro sin_fallos t db id_prestamo)) id_prestamo
         = (Inr (False, PrestamoYaDevuelto), snd (devolver_libro sin_fallos t db id_prestamo))"
proof -
  from assms obtain p where p: "prestamo_first db id_prestamo = Some p" by auto
  show ?thesis
  proof (cases "FechaDevolucion p")
    case None
    with p have "exito (fst (devolver_libro sin_fallos t db id_prestamo))"
      by (simp add: devolver_libro_sin_fallos)
    from devolver_libro_post [OF this]
    obtain p' where "prestamo_first (snd (devolver_libro sin_fallos t db id_prestamo)) id_prestamo = Some p'"
      "FechaDevolucion p' = Some t" by blast
    then show ?thesis by (rule devolver_libro_ya_devuelto)
  next
    case (Some d)
    with p have "devolver_libro sin_fallos t db id_prestamo = (Inr (False, PrestamoYaDevuelto), db)"
      by (rule devolver_libro_ya_devuelto)
    moreover from p Some have "devolver_libro sin_fallos t' db id_prestamo = (Inr (False, PrestamoYaDevuelto), db)"
      by (rule devolver_libro_ya_devuelto)
    ultimately show ?thesis by simp
  qed
qed

theorem devolver_libro_dos_veces_witness:
  "prestamo_first biblioteca_prestada 1 \<noteq> None \<and>
   exito (fst (devolver_libro sin_fallos 300 biblioteca_prestada 1)) \<and>
   devolver_libro sin_fallos 301 (snd (devolver_libro sin_fallos 300 biblioteca_prestada 1)) 1
     = (Inr (False, PrestamoYaDevuelto), snd (devolver_libro sin_fallos 300 biblioteca_prestada 1)) \<and>
   libro_first (snd (devolver_libro sin_fallos 300 biblioteca_prestada 1)) ''978-0001'' = Some cien_anos"
proof -
  have a: "prestamo_first biblioteca_prestada 1 \<noteq> None"
    by (simp add: prestamo_first_def ejemplo_defs)
  have b: "exito (fst (devolver_libro sin_fallos 300 biblioteca_prestada 1))"
    "libro_first (snd (devolver_libro sin_fallos 300 biblioteca_prestada 1)) ''978-0001'' = Some cien_anos"
    by (simp_all add: operacion_defs sin_fallos_def ejemplo_defs)
  from devolver_libro_dos_veces [OF a, of 301 300] a b show ?thesis by simp
qed

text \<open>
  C7. \<open>crear_prestamo\<close> checks the book first, then its flag, then the borrower, and
  reports the first failure. For a book that does not exist the failure is the book's,
  and for a book that is not available it is the book's as well, whatever the borrower id
  and even if the query for the borrower would raise: that query is not reached.
\<close>

theorem crear_prestamo_orden:
  assumes "get_session_raises f = None" and "query_libro_raises f = None"
    and "close_raises f = None"
  shows "(libro_first db isbn = None \<longrightarrow>
            crear_prestamo f t1 t2 db isbn usuario_id = (Inr (False, LibroNoEncontrado), db)) \<and>
         (\<forall>b. libro_first db isbn = Some b \<and> \<not> truthy (Disponible b) \<longrightarrow>
            crear_prestamo f t1 t2 db isbn usuario_id
              = (Inr (False, LibroYaPrestado (Titulo b)), db)) \<and>
         (\<forall>b. libro_first db isbn = Some b \<and> truthy (Disponible b) \<and>
              query_usuario_raises f = None \<and> usuario_first db usuario_id = None \<longrightarrow>
            crear_prestamo f t1 t2 db isbn usuario_id = (Inr (False, UsuarioNoEncontrado), db))"
  using assms
  by (simp add: crear_prestamo_def crear_prestamo_try_def except_rollback_def finally_close_def)

theorem crear_prestamo_orden_witness:
  "get_session_raises falla_query_usuario = None \<and> query_libro_raises falla_query_usuario = None \<and>
   close_raises falla_query_usuario = None \<and>
   query_usuario_raises falla_query_usuario \<noteq> None \<and>
   libro_first biblioteca_prestada ''000'' = None \<and> usuario_first biblioteca_prestada 99 = None \<and>
   crear_prestamo falla_query_usuario 200 201 biblioteca_prestada ''000'' 99
     = (Inr (False, LibroNoEncontrado), biblioteca_prestada) \<and>
   crear_prestamo falla_query_usuario 200 201 biblioteca_prestada ''978-0001'' 99
     = (Inr (False, LibroYaPrestado (Titulo cien_anos)), biblioteca_prestada) \<and>
   crear_prestamo sin_fallos 200 201 biblioteca_prestada ''978-0002'' 99
     = (Inr (False, UsuarioNoEncontrado), biblioteca_prestada)"
proof -
  have f: "get_session_raises falla_query_usuario = None" "query_libro_raises falla_query_usuario = None"
    "close_raises falla_query_usuario = None" "query_usuario_raises falla_query_usuario \<noteq> None"
    by (simp_all add: falla_query_usuario_def sin_fallos_def)
  have g: "get_session_raises sin_fallos = None" "query_libro_raises sin_fallos = None"
    "close_raises sin_fallos = None" "query_usuario_raises sin_fallos = None"
    by (simp_all add: sin_fallos_def)
  have d: "libro_first biblioteca_prestada ''000'' = None"
    "usuario_first biblioteca_prestada 99 = None"
    "libro_first biblioteca_prestada ''978-0001'' = Some (cien_anos\<lparr>Disponible := Some False\<rparr>)"
    "libro_first biblioteca_prestada ''978-0002'' = Some el_amor"
    "truthy (Disponible el_amor)"
    by (simp_all add: libro_first_def usuario_first_def ejemplo_defs)
  from crear_prestamo_orden [OF f(1-3), of biblioteca_prestada "''000''" 200 201 99]
    crear_prestamo_orden [OF f(1-3), of biblioteca_prestada "''978-0001''" 200 201 99]
    crear_prestamo_orden [OF g(1-3), of biblioteca_prestada "''978-0002''" 200 201 99]
    f g d
  show ?thesis by simp
qed

text \<open>
  C8, as the code has it. \<open>crear_prestamo\<close> reads the clock twice, once for each date.
  Whenever it succeeds it appends one loan, whose \<open>FechaPrestamo\<close> is the first reading
  \<open>t1\<close>, whose \<open>FechaVencimiento\<close> is the second reading \<open>t2\<close> plus 14 days, whose
  \<open>FechaDevolucion\<close> is NULL and whose \<open>MultaPagar\<close> is 0. With one time \<open>now\<close> for both
  dates the claim does not hold: when the clock moves between the two readings, the due
  date is not the loan date plus 14 days.
\<close>

theorem crear_prestamo_campos:
  assumes "exito (fst (crear_prestamo f t1 t2 db isbn usuario_id))"
  shows "\<exists>p. prestamos (snd (crear_prestamo f t1 t2 db isbn usuario_id)) = prestamos db @ [p] \<and>
             Prestamo.ISBN p = isbn \<and> Prestamo.IdUsuario p = usuario_id \<and>
             FechaPrestamo p = Some t1 \<and>
             FechaVencimiento p = t2 + timedelta_days 14 \<and>
             FechaDevolucion p = None \<and>
             MultaPagar p = Some 0"
  using crear_prestamo_exito_D [OF assms] by auto

theorem crear_prestamo_campos_witness:
  "exito (fst (crear_prestamo sin_fallos 200 201 biblioteca_prestada ''978-0002'' 7)) \<and>
   prestamos (snd (crear_prestamo sin_fallos 200 201 biblioteca_prestada ''978-0002'' 7))
     = prestamo_1 #
       [\<lparr>Prestamo.IdPrestamo = 2, Prestamo.IdUsuario = 7, Prestamo.ISBN = ''978-0002'',
         Prestamo.FechaPrestamo = Some 200, Prestamo.FechaVencimiento = 201 + 14 * 86400000000,
         Prestamo.FechaDevolucion = None, Prestamo.MultaPagar = Some 0,
         Prestamo.OtrosDetalles = None\<rparr>]"
proof -
  have a: "exito (fst (crear_prestamo sin_fallos 200 201 biblioteca_prestada ''978-0002'' 7))"
    by (simp add: operacion_defs sin_fallos_def ejemplo_defs)
  have b: "prestamos biblioteca_prestada = [prestamo_1]"
    by (simp add: ejemplo_defs)
  have c: "IdPrestamo (last (prestamos (snd (crear_prestamo sin_fallos 200 201 biblioteca_prestada ''978-0002'' 7)))) = 2"
    by (simp add: operacion_defs sin_fallos_def ejemplo_defs)
  have o: "Prestamo.OtrosDetalles (last (prestamos (snd (crear_prestamo sin_fallos 200 201 biblioteca_prestada ''978-0002'' 7)))) = None"
    by (simp add: operacion_defs sin_fallos_def ejemplo_defs)
  from crear_prestamo_campos [OF a] obtain p where
    p: "prestamos (snd (crear_prestamo sin_fallos 200 201 biblioteca_prestada ''978-0002'' 7))
          = prestamos biblioteca_prestada @ [p]"
      "Prestamo.ISBN p = ''978-0002''" "Prestamo.IdUsuario p = 7" "FechaPrestamo p = Some 200"
      "FechaVencimiento p = 201 + timedelta_days 14" "FechaDevolucion p = None"
      "MultaPagar p = Some 0"
    by blast
  from c p(1) have i: "IdPrestamo p = 2" by simp
  from o p(1) have o': "Prestamo.OtrosDetalles p = None" by simp
  have "p = \<lparr>Prestamo.IdPrestamo = 2, Prestamo.IdUsuario = 7, Prestamo.ISBN = ''978-0002'',
         Prestamo.FechaPrestamo = Some 200, Prestamo.FechaVencimiento = 201 + 14 * 86400000000,
         Prestamo.FechaDevolucion = None, Prestamo.MultaPagar = Some 0,
         Prestamo.OtrosDetalles = None\<rparr>"
    using p(2-7) i o' by (cases p) (simp add: timedelta_days_def)
  with a p(1) b show ?thesis by simp
qed

text \<open>
  The run with the readings 100 and 101: the loan is dated 100 and due at 101 plus 14
  days, which is not 100 plus 14 days.
\<close>

theorem crear_prestamo_campos_counterexample:
  "exito (fst (crear_prestamo sin_fallos 100 101 biblioteca ''978-0001'' 7)) \<and>
   FechaPrestamo (last (prestamos (snd (crear_prestamo sin_fallos 100 101 biblioteca ''978-0001'' 7))))
     = Some 100 \<and>
   FechaVencimiento (last (prestamos (snd (crear_prestamo sin_fallos 100 101 biblioteca ''978-0001'' 7))))
     = 101 + timedelta_days 14 \<and>
   FechaVencimiento (last (prestamos (snd (crear_prestamo sin_fallos 100 101 biblioteca ''978-0001'' 7))))
     \<noteq> 100 + timedelta_days 14"
  by (simp add: operacion_defs sin_fallos_def ejemplo_defs)

text \<open>
  C10. \<open>crear_prestamo\<close> does not look at \<open>UsuarioActivo\<close>: with an existing available
  book and an existing borrower whose flag is \<open>False\<close>, and no call into the session
  raising, it succeeds.
\<close>

theorem crear_prestamo_usuario_inactivo:
  assumes "libro_first db isbn = Some b" and "Disponible b = Some True"
    and "usuario_first db usuario_id = Some u" and "UsuarioActivo u = Some False"
  shows "fst (crear_prestamo sin_fallos t1 t2 db isbn usuario_id) = Inr (True, PrestamoRealizado)"
  using assms(1-3) by (rule crear_prestamo_sin_fallos)

theorem crear_prestamo_usuario_inactivo_witness:
  "libro_first biblioteca ''978-0001'' = Some cien_anos \<and> Disponible cien_anos = Some True \<and>
   usuario_first biblioteca 8 = Some inactivo \<and> UsuarioActivo inactivo = Some False \<and>
   fst (crear_prestamo sin_fallos 100 101 biblioteca ''978-0001'' 8) = Inr (True, PrestamoRealizado)"
proof -
  have a: "libro_first biblioteca ''978-0001'' = Some cien_anos" "Disponible cien_anos = Some True"
    "usuario_first biblioteca 8 = Some inactivo" "UsuarioActivo inactivo = Some False"
    by (simp_all add: libro_first_def usuario_first_def ejemplo_defs)
  from crear_prestamo_usuario_inactivo [OF a, of 100 101] a show ?thesis by simp
qed

text \<open>
  C5, as the code has it. If opening the session, \<open>session.rollback()\<close>,
  \<open>session.close()\<close> and, in \<open>crear_prestamo\<close>, the \<open>print\<close> of the \<open>except\<close> clause do
  not raise, then for every input and every failure of a query or of the commit the
  operation returns a (success, message) pair, and a failure leaves the database as it
  was. Under any faults at all the database afterwards is either the one from before or
  the one with both writes made, never one write alone, and a success has made both. As
  stated for every behaviour of the persistence layer the claim does not hold: when the
  commit raises and the rollback, or the \<open>print\<close>, of the \<open>except\<close> clause raises too,
  the second exception reaches the caller.
\<close>

theorem operaciones_devuelven_par:
  "(get_session_raises f = None \<and> rollback_raises f = None \<and> close_raises f = None \<longrightarrow>
      (print_raises f = None \<longrightarrow>
         (\<exists>ok m. fst (crear_prestamo f t1 t2 db isbn usuario_id) = Inr (ok, m)) \<and>
         (\<not> exito (fst (crear_prestamo f t1 t2 db isbn usuario_id)) \<longrightarrow>
            snd (crear_prestamo f t1 t2 db isbn usuario_id) = db)) \<and>
      (\<exists>ok m. fst (devolver_libro f t db id_prestamo) = Inr (ok, m)) \<and>
      (\<not> exito (fst (devolver_libro f t db id_prestamo)) \<longrightarrow>
         snd (devolver_libro f t db id_prestamo) = db)) \<and>
   (snd (crear_prestamo f t1 t2 db isbn usuario_id) = db \<or>
      ambas_escrituras_prestamo db isbn (snd (crear_prestamo f t1 t2 db isbn usuario_id))) \<and>
   (snd (devolver_libro f t db id_prestamo) = db \<or>
      ambas_escrituras_devolucion db id_prestamo t (snd (devolver_libro f t db id_prestamo))) \<and>
   (exito (fst (crear_prestamo f t1 t2 db isbn usuario_id)) \<longrightarrow>
      ambas_escrituras_prestamo db isbn (snd (crear_prestamo f t1 t2 db isbn usuario_id))) \<and>
   (exito (fst (devolver_libro f t db id_prestamo)) \<longrightarrow>
      ambas_escrituras_devolucion db id_prestamo t (snd (devolver_libro f t db id_prestamo)))"
  using crear_prestamo_par [of f t1 t2 db isbn usuario_id]
    devolver_libro_par [of f t db id_prestamo]
    crear_prestamo_atomico [of f t1 t2 db isbn usuario_id]
    devolver_libro_atomico [of f t db id_prestamo]
    crear_prestamo_exito_escrituras [of f t1 t2 db isbn usuario_id]
    devolver_libro_exito_escrituras [of f t db id_prestamo]
  by blast

theorem operaciones_devuelven_par_witness:
  "get_session_raises falla_commit = None \<and> rollback_raises falla_commit = None \<and>
   close_raises falla_commit = None \<and> print_raises falla_commit = None \<and>
   commit_raises falla_commit = Some (DBAPIError ''commit'') \<and>
   crear_prestamo falla_commit 200 201 biblioteca_prestada ''978-0002'' 7
     = (Inr (False, ErrorAlProcesarPrestamo (DBAPIError ''commit'')), biblioteca_prestada) \<and>
   devolver_libro falla_commit 300 biblioteca_prestada 1
     = (Inr (False, ErrorEnDevolucion (DBAPIError ''commit'')), biblioteca_prestada) \<and>
   get_session_raises falla_commit_y_print = None \<and> rollback_raises falla_commit_y_print = None \<and>
   close_raises falla_commit_y_print = None \<and>
   devolver_libro falla_commit_y_print 300 biblioteca_prestada 1
     = (Inr (False, ErrorEnDevolucion (DBAPIError ''commit'')), biblioteca_prestada) \<and>
   exito (fst (crear_prestamo sin_fallos 200 201 biblioteca_prestada ''978-0002'' 7)) \<and>
   ambas_escrituras_prestamo biblioteca_prestada ''978-0002''
     (snd (crear_prestamo sin_fallos 200 201 biblioteca_prestada ''978-0002'' 7)) \<and>
   exito (fst (devolver_libro sin_fallos 300 biblioteca_prestada 1)) \<and>
   ambas_escrituras_devolucion biblioteca_prestada 1 300
     (snd (devolver_libro sin_fallos 300 biblioteca_prestada 1))"
proof -
  have f: "get_session_raises falla_commit = None" "rollback_raises falla_commit = None"
    "close_raises falla_commit = None" "print_raises falla_commit = None"
    "commit_raises falla_commit = Some (DBAPIError ''commit'')"
    by (simp_all add: falla_commit_def sin_fallos_def)
  have g: "get_session_raises falla_commit_y_print = None"
    "rollback_raises falla_commit_y_print = None" "close_raises falla_commit_y_print = None"
    by (simp_all add: falla_commit_y_print_def sin_fallos_def)
  have r: "fst (crear_prestamo falla_commit 200 201 biblioteca_prestada ''978-0002'' 7)
             = Inr (False, ErrorAlProcesarPrestamo (DBAPIError ''commit''))"
    "fst (devolver_libro falla_commit 300 biblioteca_prestada 1)
             = Inr (False, ErrorEnDevolucion (DBAPIError ''commit''))"
    "fst (devolver_libro falla_commit_y_print 300 biblioteca_prestada 1)
             = Inr (False, ErrorEnDevolucion (DBAPIError ''commit''))"
    by (simp_all add: operacion_defs falla_commit_def falla_commit_y_print_def sin_fallos_def
        ejemplo_defs)
  have e: "exito (fst (crear_prestamo sin_fallos 200 201 biblioteca_prestada ''978-0002'' 7))"
    "exito (fst (devolver_libro sin_fallos 300 biblioteca_prestada 1))"
    by (simp_all add: operacion_defs sin_fallos_def ejemplo_defs)
  from operaciones_devuelven_par [of falla_commit 200 201 biblioteca_prestada "''978-0002''" 7 300 1]
    operaciones_devuelven_par [of falla_commit_y_print 200 201 biblioteca_prestada "''978-0002''" 7 300 1]
    operaciones_devuelven_par [of sin_fallos 200 201 biblioteca_prestada "''978-0002''" 7 300 1]
    f g r e
  show ?thesis by (simp add: prod_eq_iff)
qed

text \<open>
  The commit raises and then the rollback raises; the commit raises and then the \<open>print\<close>
  raises, with rollback and close going through. In each run the caller gets an
  exception, not a pair.
\<close>

theorem crear_prestamo_propaga_counterexample:
  "commit_raises falla_commit_y_rollback = Some (DBAPIError ''commit'') \<and>
   rollback_raises falla_commit_y_rollback = Some (DBAPIError ''rollback'') \<and>
   fst (crear_prestamo falla_commit_y_rollback 100 101 biblioteca ''978-0001'' 7)
     = Inl (DBAPIError ''rollback'') \<and>
   fst (devolver_libro falla_commit_y_rollback 300 biblioteca_prestada 1)
     = Inl (DBAPIError ''rollback'') \<and>
   rollback_raises falla_commit_y_print = None \<and> close_raises falla_commit_y_print = None \<and>
   fst (crear_prestamo falla_commit_y_print 100 101 biblioteca ''978-0001'' 7)
     = Inl UnicodeEncodeError"
  by (simp add: operacion_defs falla_commit_y_rollback_def falla_commit_y_print_def
      sin_fallos_def ejemplo_defs)

text \<open>
  C9, as the code has it. Each read operation returns the empty list when the session
  cannot be opened or its query raises, provided that the \<open>print\<close> of the \<open>except\<close>
  clause does not raise and, where a session was opened, that \<open>session.close()\<close> in the
  \<open>finally\<close> clause does not raise. As stated the claim does not hold: when the query
  raises and then the \<open>print\<close>, or closing the session, raises too, the second exception
  reaches the caller.
\<close>

theorem lecturas_vacias_en_fallo:
  "print_raises f = None \<longrightarrow>
     (get_session_raises f \<noteq> None \<longrightarrow>
        obtener_todos f db = Inr [] \<and> obtener_disponibles f db = Inr [] \<and>
        buscar like f db termino_busqueda = Inr [] \<and> obtener_prestamos_activos f db = Inr []) \<and>
     (close_raises f = None \<longrightarrow>
        (query_libro_raises f \<noteq> None \<longrightarrow>
           obtener_todos f db = Inr [] \<and> obtener_disponibles f db = Inr [] \<and>
           buscar like f db termino_busqueda = Inr []) \<and>
        (query_prestamo_raises f \<noteq> None \<longrightarrow> obtener_prestamos_activos f db = Inr []))"
  by (auto simp: obtener_todos_def obtener_disponibles_def obtener_prestamos_activos_def
      buscar_AttributeError finally_close_def except_vacio_def split: option.splits)

theorem lecturas_vacias_en_fallo_witness:
  "print_raises falla_get_session = None \<and> get_session_raises falla_get_session \<noteq> None \<and>
   obtener_todos falla_get_session biblioteca = Inr [] \<and>
   obtener_prestamos_activos falla_get_session biblioteca_prestada = Inr [] \<and>
   print_raises falla_query = None \<and> close_raises falla_query = None \<and>
   query_libro_raises falla_query \<noteq> None \<and> query_prestamo_raises falla_query \<noteq> None \<and>
   obtener_todos falla_query biblioteca = Inr [] \<and>
   obtener_disponibles falla_query biblioteca = Inr [] \<and>
   buscar like_sql falla_query biblioteca garcia = Inr [] \<and>
   obtener_prestamos_activos falla_query biblioteca_prestada = Inr [] \<and>
   obtener_todos sin_fallos biblioteca \<noteq> Inr [] \<and>
   obtener_prestamos_activos sin_fallos biblioteca_prestada \<noteq> Inr []"
proof -
  have f: "print_raises falla_get_session = None" "get_session_raises falla_get_session \<noteq> None"
    "print_raises falla_query = None" "close_raises falla_query = None"
    "query_libro_raises falla_query \<noteq> None" "query_prestamo_raises falla_query \<noteq> None"
    by (simp_all add: falla_get_session_def falla_query_def sin_fallos_def)
  have n: "obtener_todos sin_fallos biblioteca \<noteq> Inr []"
    "obtener_prestamos_activos sin_fallos biblioteca_prestada \<noteq> Inr []"
    by (simp_all add: obtener_todos_def obtener_prestamos_activos_def finally_close_def
        except_vacio_def sin_fallos_def ejemplo_defs)
  from lecturas_vacias_en_fallo [of falla_get_session biblioteca like_sql garcia]
    lecturas_vacias_en_fallo [of falla_get_session biblioteca_prestada like_sql garcia]
    lecturas_vacias_en_fallo [of falla_query biblioteca like_sql garcia]
    lecturas_vacias_en_fallo [of falla_query biblioteca_prestada like_sql garcia]
    f n
  show ?thesis by simp
qed

text \<open>
  The query raises and then closing the session raises; the query raises and then the
  \<open>print\<close> raises, with close going through. In each run the caller gets an exception,
  not the empty list.
\<close>

theorem lecturas_propagan_counterexample:
  "query_libro_raises falla_query_y_close = Some (DBAPIError ''query'') \<and>
   obtener_todos falla_query_y_close biblioteca = Inl (DBAPIError ''close'') \<and>
   obtener_disponibles falla_query_y_close biblioteca = Inl (DBAPIError ''close'') \<and>
   obtener_prestamos_activos falla_query_y_close biblioteca_prestada = Inl (DBAPIError ''close'') \<and>
   query_libro_raises falla_query_y_print = Some (DBAPIError ''query'') \<and>
   close_raises falla_query_y_print = None \<and>
   obtener_todos falla_query_y_print biblioteca = Inl UnicodeEncodeError \<and>
   obtener_disponibles falla_query_y_print biblioteca = Inl UnicodeEncodeError \<and>
   obtener_prestamos_activos falla_query_y_print biblioteca_prestada = Inl UnicodeEncodeError"
  by (simp add: obtener_todos_def obtener_disponibles_def obtener_prestamos_activos_def
      finally_close_def except_vacio_def falla_query_y_close_def falla_query_y_print_def
      sin_fallos_def)

text \<open>
  C4. \<open>buscar\<close> is claimed to return exactly the books whose title, ISBN or author names
  contain the term. The code reads \<open>Libro.Titulo\<close>, a name the class does not bind, so
  building the query raises \<open>AttributeError\<close>, which the \<open>except\<close> clause turns into the
  empty list. On the library of two books by the author of last name \<open>garcia_marquez\<close>
  the search for \<open>garcia\<close> returns nothing, for any LIKE operator, while both books
  contain the term in the author's last name and \<open>obtener_todos\<close> lists them.
\<close>

theorem buscar_garcia_vacio:
  "buscar like sin_fallos biblioteca garcia = Inr [] \<and>
   contiene garcia (Autor.Apellidos garcia_marquez) \<and>
   buscar_segun_spec biblioteca garcia
     = [(cien_anos, Some garcia_marquez, Some novela), (el_amor, Some garcia_marquez, Some novela)] \<and>
   obtener_todos sin_fallos biblioteca
     = Inr [(cien_anos, Some garcia_marquez, Some novela), (el_amor, Some garcia_marquez, Some novela)]"
proof -
  have 1: "buscar like sin_fallos biblioteca garcia = Inr []"
    by (simp add: buscar_AttributeError finally_close_def except_vacio_def sin_fallos_def)
  have 2: "contiene garcia (Autor.Apellidos garcia_marquez)"
    by (simp add: garcia_def garcia_marquez_def)
  have 3: "buscar_segun_spec biblioteca garcia
     = [(cien_anos, Some garcia_marquez, Some novela), (el_amor, Some garcia_marquez, Some novela)]"
    using 2 by (simp add: buscar_segun_spec_def joinedload_libro_def biblioteca_def
        cien_anos_def el_amor_def novela_def garcia_marquez_def)
  have 4: "obtener_todos sin_fallos biblioteca
     = Inr [(cien_anos, Some garcia_marquez, Some novela), (el_amor, Some garcia_marquez, Some novela)]"
    by (simp add: obtener_todos_def finally_close_def except_vacio_def sin_fallos_def
        joinedload_libro_def biblioteca_def cien_anos_def el_amor_def novela_def garcia_marquez_def)
  from 1 2 3 4 show ?thesis by simp
qed

end
